theory Spec2Isabelle
  imports Complex_Main
begin

section \<open>The resume builder: data model\<close>

text \<open>
  The component \<open>ResumeBuilder\<close> of \<open>resume-builder.jsx\<close> keeps a form (the structured
  resume), the displayed markdown \<open>previewContent\<close>, the active tab and the time of the
  last successful improvement. JavaScript strings are modelled as \<open>string\<close>, the bytes of
  their UTF-8 encoding; a field that may be \<open>undefined\<close> is an \<open>option\<close>.
\<close>

text \<open>
  Modelled from the spec: the shape of an entry of the experience, education and projects
  lists is declared in other modules (the entry form and the schema), not in the
  component, which only passes entries on and reads the length of a list.
\<close>

record entry =
  title :: string
  subtitle :: string
  startDate :: string
  endDate :: string
  isCurrent :: bool
  description :: string

text \<open>\<open>contactInfo\<close> starts as \<open>{}\<close>: every field is absent until it is entered.\<close>

record contactInfo =
  name :: "string option"
  email :: "string option"
  mobile :: "string option"
  linkedin :: "string option"
  twitter :: "string option"

text \<open>The values of the form, as \<open>watch()\<close> returns them (\<open>defaultValues\<close> of \<open>useForm\<close>).\<close>

record formValues =
  contactInfo :: contactInfo
  summary :: string
  skills :: string
  experience :: "entry list"
  education :: "entry list"
  projects :: "entry list"

text \<open>The two values of \<open>activeTab\<close>: \<open>"edit"\<close> (the form) and \<open>"preview"\<close> (the markdown).\<close>

datatype tab = Edit | Preview

text \<open>
  The state of the component: the prop \<open>initialContent\<close> and the \<open>useState\<close> cells that
  the modelled handlers read or write.
\<close>

record state =
  initialContent :: "string option"
  activeTab :: tab
  previewContent :: "string option"
  formValues :: formValues
  lastEnhancementTime :: int
  isImprovingSummary :: bool
  isImprovingSkills :: bool
  isUploading :: bool
  isEnhancing :: bool

text \<open>
  The helper \<open>entriesToMarkdown(entries, type)\<close> is imported from another module,
  \<open>@/app/lib/helper\<close>: the functions below take it as the parameter \<open>etm\<close>.
\<close>

type_synonym renderer = "entry list \<Rightarrow> string \<Rightarrow> string"

section \<open>Projection of the form to markdown\<close>

text \<open>JavaScript truthiness of a string that may be \<open>undefined\<close>.\<close>

fun truthy :: "string option \<Rightarrow> bool" where
  "truthy None = False"
| "truthy (Some s) = (s \<noteq> [])"

text \<open>\<open>Array.prototype.join\<close> on a list of strings.\<close>

fun join :: "string \<Rightarrow> string list \<Rightarrow> string" where
  "join sep [] = []"
| "join sep [x] = x"
| "join sep (x # y # ys) = x @ sep @ join sep (y # ys)"

text \<open>The emoji of the contact line, as UTF-8 bytes.\<close>

definition envelope :: string where
  "envelope = [CHR 0xF0, CHR 0x9F, CHR 0x93, CHR 0xA7]"

definition phone :: string where
  "phone = [CHR 0xF0, CHR 0x9F, CHR 0x93, CHR 0xB1]"

definition briefcase :: string where
  "briefcase = [CHR 0xF0, CHR 0x9F, CHR 0x92, CHR 0xBC]"

definition bird :: string where
  "bird = [CHR 0xF0, CHR 0x9F, CHR 0x90, CHR 0xA6]"

text \<open>One \<open>if (field) parts.push(...)\<close> of \<open>getContactMarkdown\<close>.\<close>

fun part :: "string option \<Rightarrow> string \<Rightarrow> string \<Rightarrow> string list" where
  "part None l r = []"
| "part (Some s) l r = (if s \<noteq> [] then [l @ s @ r] else [])"

text \<open>\<open>getContactMarkdown\<close> (lines 176-188): it reads \<open>formValues\<close> of the component.\<close>

definition getContactMarkdown :: "state \<Rightarrow> string" where
  "getContactMarkdown st =
     (let c = contactInfo (formValues st);
          parts = part (name c) ''**'' ''**''
                @ part (email c) (envelope @ '' '') ''''
                @ part (mobile c) (phone @ '' '') ''''
                @ part (linkedin c) (briefcase @ '' [LinkedIn]('') '')''
                @ part (twitter c) (bird @ '' [Twitter]('') '')''
      in if length parts > 0
         then ''## Contact Information\<newline>\<newline>'' @ join '' | '' parts
         else '''')"

text \<open>
  \<open>getCombinedContent\<close> (lines 190-202): \<open>summary && `...`\<close> is the empty string when the
  summary is empty, \<open>filter(Boolean)\<close> drops the empty strings, \<open>join\<close> puts a blank line
  between the rest.
\<close>

definition getCombinedContent :: "renderer \<Rightarrow> state \<Rightarrow> string" where
  "getCombinedContent etm st =
     (let fv = formValues st
      in join ''\<newline>\<newline>''
           (filter (\<lambda>s. s \<noteq> [])
              [getContactMarkdown st,
               if summary fv \<noteq> [] then ''## Professional Summary\<newline>\<newline>'' @ summary fv else [],
               if skills fv \<noteq> [] then ''## Skills\<newline>\<newline>'' @ skills fv else [],
               etm (experience fv) ''Work Experience'',
               etm (education fv) ''Education'',
               etm (projects fv) ''Projects'']))"

section \<open>Requests, responses and what a handler does to the outside\<close>

text \<open>
  The body of a request: \<open>{content, type}\<close> of \<open>improveWithAI\<close>, the whole form of
  \<open>handleEnhanceResume\<close>, the file of \<open>handleFileUpload\<close>.
\<close>

datatype request =
  ImproveRequest string string
| EnhanceRequest formValues
| UploadRequest string

text \<open>
  What a handler does besides changing the state, in order: the toasts, \<open>console.error\<close>
  (its label), the \<open>setTimeout\<close> delay in milliseconds, and \<open>fetch\<close> with its URL and body.
\<close>

datatype event =
  ToastError string
| ToastInfo string
| ToastSuccess string
| ConsoleError string
| Sleep nat
| Fetch string request

text \<open>
  The outcomes of \<open>await fetch(...)\<close> followed by \<open>await response.json()\<close>:
  \<^item> \<open>NetworkError m\<close>: \<open>fetch\<close> rejects with an error of message \<open>m\<close>;
  \<^item> \<open>HttpError status body\<close>: \<open>response.ok\<close> is false;
  \<^item> \<open>BadJson m\<close>: \<open>response.ok\<close> holds and \<open>response.json()\<close> rejects with message \<open>m\<close>;
  \<^item> \<open>JsonNull m\<close>: the body is the JSON value \<open>null\<close>, so that reading \<open>data.content\<close>
    throws a \<open>TypeError\<close> (of message \<open>m\<close>);
  \<^item> \<open>Json c\<close>: the body is a JSON value with \<open>data.content = c\<close>.
\<close>

datatype 'a response =
  NetworkError string
| HttpError nat string
| BadJson string
| JsonNull string
| Json 'a

text \<open>
  \<open>data.content\<close> of the enhance and upload responses: each field may be missing. The
  fields are prefixed with \<open>r_\<close> to keep them apart from those of the form.
\<close>

record content =
  r_summary :: "string option"
  r_skills :: "string option"
  r_experience :: "entry list option"
  r_education :: "entry list option"
  r_projects :: "entry list option"

section \<open>Small JavaScript functions\<close>

text \<open>The decimal digits of a number, as a template literal prints an integer.\<close>

definition digit :: "nat \<Rightarrow> char" where
  "digit d = ''0123456789'' ! d"

fun decimal :: "nat \<Rightarrow> string" where
  "decimal n = (if 10 \<le> n then decimal (n div 10) else []) @ [digit (n mod 10)]"

declare decimal.simps [simp del]

definition numberToString :: "int \<Rightarrow> string" where
  "numberToString i = (if 0 \<le> i then decimal (nat i) else CHR ''-'' # decimal (nat (- i)))"

text \<open>\<open>String.prototype.includes\<close>.\<close>

fun includes_str :: "string \<Rightarrow> string \<Rightarrow> bool" where
  "includes_str [] n = (n = [])"
| "includes_str (x # xs) n = (take (length n) (x # xs) = n \<or> includes_str xs n)"

text \<open>\<open>a || b\<close> on strings.\<close>

definition orElse :: "string \<Rightarrow> string \<Rightarrow> string" where
  "orElse a b = (if a \<noteq> [] then a else b)"

text \<open>
  \<open>Math.ceil((60000 - (now - lastEnhancementTime)) / 1000)\<close>: times are the integer
  milliseconds of \<open>Date.now()\<close>.
\<close>

definition waitTime :: "int \<Rightarrow> int \<Rightarrow> int" where
  "waitTime now lastTime = \<lceil>real_of_int (60000 - (now - lastTime)) / 1000\<rceil>"

section \<open>Writing the form\<close>

text \<open>
  \<open>setValue(name, value)\<close> of the form library, for the names the component uses: it
  replaces one field of the form.
\<close>

datatype field =
  ContactInfo contactInfo
| Summary string
| Skills string
| Experience "entry list"
| Education "entry list"
| Projects "entry list"

fun setValue :: "field \<Rightarrow> formValues \<Rightarrow> formValues" where
  "setValue (ContactInfo c) fv = fv\<lparr>contactInfo := c\<rparr>"
| "setValue (Summary s) fv = fv\<lparr>summary := s\<rparr>"
| "setValue (Skills s) fv = fv\<lparr>skills := s\<rparr>"
| "setValue (Experience es) fv = fv\<lparr>experience := es\<rparr>"
| "setValue (Education es) fv = fv\<lparr>education := es\<rparr>"
| "setValue (Projects es) fv = fv\<lparr>projects := es\<rparr>"

text \<open>\<open>if (summary) setValue("summary", summary)\<close>: a string is written when it is truthy.\<close>

fun setText :: "(string \<Rightarrow> field) \<Rightarrow> string option \<Rightarrow> formValues \<Rightarrow> formValues" where
  "setText f None fv = fv"
| "setText f (Some s) fv = (if s \<noteq> [] then setValue (f s) fv else fv)"

text \<open>
  \<open>if (experience && experience.length > 0) setValue("experience", experience)\<close>: a list
  is written when it is there and has an element.
\<close>

fun setEntries :: "(entry list \<Rightarrow> field) \<Rightarrow> entry list option \<Rightarrow> formValues \<Rightarrow> formValues" where
  "setEntries f None fv = fv"
| "setEntries f (Some es) fv = (if length es > 0 then setValue (f es) fv else fv)"

text \<open>
  The five conditional writes that \<open>handleFileUpload\<close> (lines 460-464) and
  \<open>handleEnhanceResume\<close> (lines 513-517) both make, in the order of the source.
\<close>

definition applyContent :: "content \<Rightarrow> formValues \<Rightarrow> formValues" where
  "applyContent c fv =
     setEntries Projects (r_projects c)
       (setEntries Education (r_education c)
          (setEntries Experience (r_experience c)
             (setText Skills (r_skills c)
                (setText Summary (r_summary c) fv))))"

section \<open>The effects of a render\<close>

text \<open>
  The state of a fresh component: \<open>useState\<close> and the \<open>defaultValues\<close> of \<open>useForm\<close>.
\<close>

definition defaultValues :: formValues where
  "defaultValues =
     \<lparr>contactInfo = \<lparr>name = None, email = None, mobile = None, linkedin = None, twitter = None\<rparr>,
      summary = [], skills = [], experience = [], education = [], projects = []\<rparr>"

definition initialState :: "string option \<Rightarrow> state" where
  "initialState ic =
     \<lparr>initialContent = ic, activeTab = Edit, previewContent = ic, formValues = defaultValues,
      lastEnhancementTime = 0, isImprovingSummary = False, isImprovingSkills = False,
      isUploading = False, isEnhancing = False\<rparr>"

text \<open>The effect of lines 131-133: \<open>if (initialContent) setActiveTab("preview")\<close>.\<close>

definition tabEffect :: "state \<Rightarrow> state" where
  "tabEffect st = (if truthy (initialContent st) then st\<lparr>activeTab := Preview\<rparr> else st)"

text \<open>
  The effect of lines 136-141, run after every render in which \<open>formValues\<close> or
  \<open>activeTab\<close> changed: on the form tab the displayed text becomes the projection, or
  \<open>initialContent\<close> when the projection is the empty string.
\<close>

definition previewEffect :: "renderer \<Rightarrow> state \<Rightarrow> state" where
  "previewEffect etm st =
     (if activeTab st = Edit
      then let newContent = getCombinedContent etm st
           in st\<lparr>previewContent := (if newContent \<noteq> [] then Some newContent else initialContent st)\<rparr>
      else st)"

text \<open>
  Mounting: both effects run on the first render, where \<open>activeTab\<close> is still \<open>"edit"\<close>
  for the second one; the render that follows the change of tab leaves the text alone.
\<close>

definition mount :: "renderer \<Rightarrow> string option \<Rightarrow> state" where
  "mount etm ic = previewEffect etm (tabEffect (previewEffect etm (initialState ic)))"

text \<open>
  What the user does, each followed by the render it causes: typing into a field of the
  form, choosing a tab (\<open>onValueChange={setActiveTab}\<close>), typing into the markdown editor
  (\<open>onChange={setPreviewContent}\<close>).
\<close>

definition editField :: "renderer \<Rightarrow> field \<Rightarrow> state \<Rightarrow> state" where
  "editField etm f st = previewEffect etm (st\<lparr>formValues := setValue f (formValues st)\<rparr>)"

definition selectTab :: "renderer \<Rightarrow> tab \<Rightarrow> state \<Rightarrow> state" where
  "selectTab etm t st = previewEffect etm (st\<lparr>activeTab := t\<rparr>)"

definition editMarkdown :: "string \<Rightarrow> state \<Rightarrow> state" where
  "editMarkdown md st = st\<lparr>previewContent := Some md\<rparr>"

section \<open>The handlers\<close>

text \<open>
  A handler is run to completion: it takes the state of the render it was created in and
  what the outside answers (the clock, the response), and returns the state after its
  \<open>set...\<close> calls and the events it caused. This is the run of one call that no other
  call overlaps with: the handlers suspend at their \<open>await\<close>s, and for calls that overlap
  the two halves of \<open>improveWithAI\<close> around its \<open>await\<close>s are given on their own below.
  \<open>formValues\<close> inside a handler is the constant bound by \<open>watch()\<close> in that render, so
  \<open>getCombinedContent()\<close> called by a handler projects the values of that render, also
  after the handler's \<open>setValue\<close> calls; in the state a handler returns, \<open>formValues\<close> is
  the form after those calls, which the next render reads.
\<close>

text \<open>
  \<open>improveWithAI({current, type})\<close> (lines 332-378). \<open>now\<close> is \<open>Date.now()\<close> at the
  check, \<open>now2\<close> is \<open>Date.now()\<close> after the response. The result is \<open>Inl m\<close> for a thrown
  error of message \<open>m\<close> and \<open>Inr v\<close> for a returned value, where \<open>None\<close> stands for \<open>null\<close>
  and \<open>undefined\<close>.
\<close>

definition improveWithAI ::
  "state \<Rightarrow> string \<Rightarrow> string \<Rightarrow> int \<Rightarrow> string option response \<Rightarrow> int
     \<Rightarrow> (string + string option) \<times> state \<times> event list" where
  "improveWithAI st current ty now resp now2 =
     (if now - lastEnhancementTime st < 60000
      then (Inr None, st,
            [ToastError (''Please wait '' @ numberToString (waitTime now (lastEnhancementTime st))
                         @ '' seconds before trying again.'')])
      else
        let sent = [Sleep 500, Fetch ''/api/resume/enhance'' (ImproveRequest current ty)];
            logged = [ConsoleError ''AI improvement error:'']
        in case resp of
             NetworkError m \<Rightarrow> (Inl m, st, sent @ logged)
           | HttpError status errorText \<Rightarrow>
               if status = 429
               then (Inl ''Rate limit exceeded. Please wait a minute before trying again.'', st,
                     sent @ [ToastError ''Rate limit exceeded. Please wait a minute before trying again.'']
                          @ logged)
               else (Inl (orElse errorText ''Failed to improve content''), st, sent @ logged)
           | BadJson m \<Rightarrow> (Inl m, st, sent @ logged)
           | JsonNull m \<Rightarrow> (Inl m, st\<lparr>lastEnhancementTime := now2\<rparr>, sent @ logged)
           | Json c \<Rightarrow> (Inr c, st\<lparr>lastEnhancementTime := now2\<rparr>, sent))"

text \<open>
  The two halves of \<open>improveWithAI\<close>. The first (lines 335-354) runs when the call
  starts: it reads \<open>lastEnhancementTime\<close> of the render \<open>st\<close> the handler was created in
  and either refuses or, after the delay, sends the request. The second (lines 356-377)
  runs when the response arrives, on the state \<open>cur\<close> the component has by then, which
  other calls may have changed in between.
\<close>

definition improveWithAI_request :: "state \<Rightarrow> string \<Rightarrow> string \<Rightarrow> int \<Rightarrow> event list" where
  "improveWithAI_request st current ty now =
     (if now - lastEnhancementTime st < 60000
      then [ToastError (''Please wait '' @ numberToString (waitTime now (lastEnhancementTime st))
                        @ '' seconds before trying again.'')]
      else [Sleep 500, Fetch ''/api/resume/enhance'' (ImproveRequest current ty)])"

definition improveWithAI_response ::
  "state \<Rightarrow> string option response \<Rightarrow> int \<Rightarrow> (string + string option) \<times> state \<times> event list" where
  "improveWithAI_response cur resp now2 =
     (let logged = [ConsoleError ''AI improvement error:'']
      in case resp of
           NetworkError m \<Rightarrow> (Inl m, cur, logged)
         | HttpError status errorText \<Rightarrow>
             if status = 429
             then (Inl ''Rate limit exceeded. Please wait a minute before trying again.'', cur,
                   [ToastError ''Rate limit exceeded. Please wait a minute before trying again.'']
                   @ logged)
             else (Inl (orElse errorText ''Failed to improve content''), cur, logged)
         | BadJson m \<Rightarrow> (Inl m, cur, logged)
         | JsonNull m \<Rightarrow> (Inl m, cur\<lparr>lastEnhancementTime := now2\<rparr>, logged)
         | Json c \<Rightarrow> (Inr c, cur\<lparr>lastEnhancementTime := now2\<rparr>, []))"

text \<open>\<open>handleImproveSummary\<close> (lines 380-405).\<close>

definition handleImproveSummary ::
  "state \<Rightarrow> int \<Rightarrow> string option response \<Rightarrow> int \<Rightarrow> state \<times> event list" where
  "handleImproveSummary st now resp now2 =
     (if summary (formValues st) = []
      then (st, [ToastError ''Please enter a summary first''])
      else
        case improveWithAI (st\<lparr>isImprovingSummary := True\<rparr>) (summary (formValues st))
               ''summary'' now resp now2 of
          (Inr improvedContent, st1, evs) \<Rightarrow>
            if truthy improvedContent
            then (st1\<lparr>formValues := setValue (Summary (the improvedContent)) (formValues st1),
                      isImprovingSummary := False\<rparr>,
                  [ToastInfo ''Improving your summary... This may take a moment.''] @ evs
                  @ [ToastSuccess ''Summary improved successfully!''])
            else (st1\<lparr>isImprovingSummary := False\<rparr>,
                  [ToastInfo ''Improving your summary... This may take a moment.''] @ evs)
        | (Inl m, st1, evs) \<Rightarrow>
            (st1\<lparr>isImprovingSummary := False\<rparr>,
             [ToastInfo ''Improving your summary... This may take a moment.''] @ evs
             @ [ConsoleError ''Error improving summary:'',
                ToastError (orElse m ''Failed to improve summary. Please try again.'')]))"

text \<open>\<open>handleImproveSkills\<close> (lines 407-432).\<close>

definition handleImproveSkills ::
  "state \<Rightarrow> int \<Rightarrow> string option response \<Rightarrow> int \<Rightarrow> state \<times> event list" where
  "handleImproveSkills st now resp now2 =
     (if skills (formValues st) = []
      then (st, [ToastError ''Please enter skills first''])
      else
        case improveWithAI (st\<lparr>isImprovingSkills := True\<rparr>) (skills (formValues st))
               ''skills'' now resp now2 of
          (Inr improvedContent, st1, evs) \<Rightarrow>
            if truthy improvedContent
            then (st1\<lparr>formValues := setValue (Skills (the improvedContent)) (formValues st1),
                      isImprovingSkills := False\<rparr>,
                  [ToastInfo ''Improving your skills section... This may take a moment.''] @ evs
                  @ [ToastSuccess ''Skills improved successfully!''])
            else (st1\<lparr>isImprovingSkills := False\<rparr>,
                  [ToastInfo ''Improving your skills section... This may take a moment.''] @ evs)
        | (Inl m, st1, evs) \<Rightarrow>
            (st1\<lparr>isImprovingSkills := False\<rparr>,
             [ToastInfo ''Improving your skills section... This may take a moment.''] @ evs
             @ [ConsoleError ''Error improving skills:'',
                ToastError (orElse m ''Failed to improve skills. Please try again.'')]))"

text \<open>
  The body of \<open>if (data.content) { ... }\<close> in \<open>handleFileUpload\<close> (lines 456-468) and in
  \<open>handleEnhanceResume\<close> (lines 509-521): the conditional writes, then
  \<open>setPreviewContent(getCombinedContent())\<close>, whatever the active tab is. An object is
  truthy, so the body runs whenever \<open>data.content\<close> is there.
\<close>

fun updateFromContent :: "renderer \<Rightarrow> content option \<Rightarrow> state \<Rightarrow> state" where
  "updateFromContent etm None st = st"
| "updateFromContent etm (Some c) st =
     st\<lparr>formValues := applyContent c (formValues st),
        previewContent := Some (getCombinedContent etm st)\<rparr>"

text \<open>The \<open>catch\<close> block of \<open>handleEnhanceResume\<close> (lines 524-532).\<close>

definition enhanceCatch :: "string \<Rightarrow> event list" where
  "enhanceCatch m =
     [ConsoleError ''Enhancement error:'',
      if includes_str m ''429'' \<or> includes_str m ''Too Many Requests''
      then ToastError ''Rate limit exceeded. Please try again in a minute.''
      else ToastError (orElse m ''Failed to enhance resume. Please try again later.'')]"

text \<open>\<open>handleEnhanceResume\<close> (lines 482-536): it neither reads the clock nor \<open>lastEnhancementTime\<close>.\<close>

definition handleEnhanceResume ::
  "renderer \<Rightarrow> state \<Rightarrow> content option response \<Rightarrow> state \<times> event list" where
  "handleEnhanceResume etm st resp =
     (let fv = formValues st
      in if summary fv = [] \<and> skills fv = [] \<and> length (experience fv) = 0
         then (st, [ToastError ''Please add some content to your resume first''])
         else
           let sent = [ToastInfo ''Enhancing your resume... This may take a minute or two due to rate limits.'',
                       Fetch ''/api/resume/enhance'' (EnhanceRequest fv)]
           in case resp of
                NetworkError m \<Rightarrow> (st\<lparr>isEnhancing := False\<rparr>, sent @ enhanceCatch m)
              | HttpError status errorText \<Rightarrow>
                  (st\<lparr>isEnhancing := False\<rparr>,
                   sent @ enhanceCatch (orElse errorText ''Failed to enhance resume''))
              | BadJson m \<Rightarrow> (st\<lparr>isEnhancing := False\<rparr>, sent @ enhanceCatch m)
              | JsonNull m \<Rightarrow> (st\<lparr>isEnhancing := False\<rparr>, sent @ enhanceCatch m)
              | Json c \<Rightarrow>
                  ((updateFromContent etm c st)\<lparr>isEnhancing := False\<rparr>,
                   sent @ [ToastSuccess ''Resume enhanced successfully!'']))"

text \<open>
  \<open>handleFileUpload\<close> (lines 434-480); \<open>file\<close> is \<open>event.target.files[0]\<close>, its bytes or
  \<open>undefined\<close>. Resetting the file input in \<open>finally\<close> touches no state of the model.
\<close>

definition uploadCatch :: "string \<Rightarrow> event list" where
  "uploadCatch m = [ConsoleError ''Upload error:'', ToastError (orElse m ''Failed to upload resume'')]"

definition handleFileUpload ::
  "renderer \<Rightarrow> state \<Rightarrow> string option \<Rightarrow> content option response \<Rightarrow> state \<times> event list" where
  "handleFileUpload etm st file resp =
     (case file of
        None \<Rightarrow> (st, [])
      | Some bytes \<Rightarrow>
          (let sent = [Fetch ''/api/resume/upload'' (UploadRequest bytes)]
           in (case resp of
                 NetworkError m \<Rightarrow> (st\<lparr>isUploading := False\<rparr>, sent @ uploadCatch m)
               | HttpError status errorData \<Rightarrow>
                   (st\<lparr>isUploading := False\<rparr>,
                    sent @ uploadCatch (orElse errorData ''Failed to upload resume''))
               | BadJson m \<Rightarrow> (st\<lparr>isUploading := False\<rparr>, sent @ uploadCatch m)
               | JsonNull m \<Rightarrow> (st\<lparr>isUploading := False\<rparr>, sent @ uploadCatch m)
               | Json c \<Rightarrow>
                   ((updateFromContent etm c st)\<lparr>isUploading := False\<rparr>,
                    sent @ [ToastSuccess ''Resume uploaded successfully!'']))))"

text \<open>Whether a list of events reaches the network, and whether it calls the enhancement service.\<close>

fun isFetch :: "event \<Rightarrow> bool" where
  "isFetch (Fetch url body) = True"
| "isFetch e = False"

fun isEnhanceFetch :: "event \<Rightarrow> bool" where
  "isEnhanceFetch (Fetch url body) = (url = ''/api/resume/enhance'')"
| "isEnhanceFetch e = False"

section \<open>Notions used to state the properties\<close>

text \<open>
  Modelled from the spec: \<open>entriesToMarkdown\<close> is defined in \<open>@/app/lib/helper\<close>, a
  module that the component only imports. The spec says that a section is omitted entirely if the list is empty, that
  entries are rendered in list order with title, subtitle, date range and description,
  and that a current entry renders an open-ended date range token instead of an end date;
  it fixes neither the headings nor the separators, which are chosen here. The theorems
  below hold for every renderer; this one runs them on concrete inputs.
\<close>

definition entryToMarkdown :: "entry \<Rightarrow> string" where
  "entryToMarkdown e =
     ''### '' @ title e @ '' @ '' @ subtitle e @ ''\<newline>''
     @ startDate e @ '' - '' @ (if isCurrent e then ''Present'' else endDate e)
     @ ''\<newline>\<newline>'' @ description e"

definition entriesToMarkdown :: renderer where
  "entriesToMarkdown entries ty =
     (if entries = [] then []
      else ''## '' @ ty @ ''\<newline>\<newline>'' @ join ''\<newline>\<newline>'' (map entryToMarkdown entries))"

text \<open>
  Whether line 371, \<open>setLastEnhancementTime(Date.now())\<close>, is reached: the response is
  ok and \<open>response.json()\<close> has resolved.
\<close>

fun bodyParsed :: "'a response \<Rightarrow> bool" where
  "bodyParsed (NetworkError m) = False"
| "bodyParsed (HttpError status body) = False"
| "bodyParsed (BadJson m) = False"
| "bodyParsed (JsonNull m) = True"
| "bodyParsed (Json c) = True"

text \<open>A response content in which every field that is there but empty is taken out.\<close>

fun nonEmpty :: "'a list option \<Rightarrow> 'a list option" where
  "nonEmpty None = None"
| "nonEmpty (Some xs) = (if xs = [] then None else Some xs)"

definition dropEmpty :: "content \<Rightarrow> content" where
  "dropEmpty c =
     \<lparr>r_summary = nonEmpty (r_summary c), r_skills = nonEmpty (r_skills c),
      r_experience = nonEmpty (r_experience c), r_education = nonEmpty (r_education c),
      r_projects = nonEmpty (r_projects c)\<rparr>"

text \<open>The value a field of the form has after a response field was applied to it.\<close>

fun overwritten :: "'a list option \<Rightarrow> 'a list \<Rightarrow> 'a list" where
  "overwritten None old = old"
| "overwritten (Some new) old = (if new = [] then old else new)"

section \<open>Sample inputs\<close>

text \<open>An education entry, and a form in which only the name of the contact is entered.\<close>

definition bsc :: entry where
  "bsc = \<lparr>title = ''BSc'', subtitle = ''MIT'', startDate = ''2019'', endDate = ''2022'',
          isCurrent = False, description = ''Maths''\<rparr>"

definition anaOnly :: state where
  "anaOnly = (initialState None)
     \<lparr>formValues :=
        setValue (ContactInfo ((contactInfo defaultValues)\<lparr>name := Some ''Ana''\<rparr>)) defaultValues\<rparr>"

text \<open>A resume being written on the form tab; no improvement has been recorded yet.\<close>

definition draft :: state where
  "draft = (initialState None)
     \<lparr>formValues := defaultValues\<lparr>summary := ''S'', skills := ''K'', education := [bsc]\<rparr>\<rparr>"

text \<open>The same resume after its summary was improved: the response came at time 1000700.\<close>

definition improved :: state where
  "improved = fst (handleImproveSummary draft 1000000 (Json (Some ''T'')) 1000700)"

text \<open>The same resume on the markdown tab, where the user has typed the text \<open>X\<close>.\<close>

definition draftPreview :: state where
  "draftPreview =
     editMarkdown ''X'' (draft\<lparr>activeTab := Preview, lastEnhancementTime := 1000700\<rparr>)"

text \<open>A session seeded with the text \<open>old\<close>, after the user has chosen the form tab.\<close>

definition seeded :: state where
  "seeded = selectTab entriesToMarkdown Edit (mount entriesToMarkdown (Some ''old''))"

text \<open>
  Two response contents: one without experience, education and projects; one whose
  summary and experience are there but empty.
\<close>

definition partialContent :: content where
  "partialContent =
     \<lparr>r_summary = Some ''T'', r_skills = Some ''K2'', r_experience = None,
      r_education = None, r_projects = None\<rparr>"

definition hollowContent :: content where
  "hollowContent =
     \<lparr>r_summary = Some [], r_skills = Some ''K2'', r_experience = Some [],
      r_education = None, r_projects = None\<rparr>"

text \<open>
  A form with a summary only, and its state when \<open>handleEnhanceResume\<close> has applied the
  first of the two contents above.
\<close>

definition summaryOnly :: state where
  "summaryOnly = (initialState None)\<lparr>formValues := defaultValues\<lparr>summary := ''S''\<rparr>\<rparr>"

definition enhanced :: state where
  "enhanced = fst (handleEnhanceResume entriesToMarkdown summaryOnly (Json (Some partialContent)))"


section \<open>Auxiliary facts\<close>

subsection \<open>The clock and the network in \<open>improveWithAI\<close> and its callers\<close>

lemma improveWithAI_busy:
  "now - lastEnhancementTime st < 60000 \<Longrightarrow>
     improveWithAI st current ty now resp now2 =
       (Inr None, st,
        [ToastError (''Please wait '' @ numberToString (waitTime now (lastEnhancementTime st))
                     @ '' seconds before trying again.'')])"
  by (simp add: improveWithAI_def)

lemma improveWithAI_failed:
  "\<not> bodyParsed resp \<Longrightarrow> fst (snd (improveWithAI st current ty now resp now2)) = st"
  by (cases resp) (simp_all add: improveWithAI_def Let_def)

lemma improveWithAI_clock:
  "lastEnhancementTime (fst (snd (improveWithAI st current ty now resp now2))) =
     (if now - lastEnhancementTime st < 60000 \<or> \<not> bodyParsed resp
      then lastEnhancementTime st else now2)"
  by (cases resp) (simp_all add: improveWithAI_def Let_def)

lemma improveWithAI_halves:
  "improveWithAI st current ty now resp now2 =
     (if now - lastEnhancementTime st < 60000
      then (Inr None, st, improveWithAI_request st current ty now)
      else case improveWithAI_response st resp now2 of
             (r, st', evs) \<Rightarrow> (r, st', improveWithAI_request st current ty now @ evs))"
  by (cases resp)
     (simp_all add: improveWithAI_def improveWithAI_request_def improveWithAI_response_def Let_def)

lemma improveWithAI_response_clock:
  "lastEnhancementTime (fst (snd (improveWithAI_response cur resp now2))) =
     (if bodyParsed resp then now2 else lastEnhancementTime cur)"
  by (cases resp) (simp_all add: improveWithAI_response_def Let_def)

text \<open>
  Two calls that overlap: a request made from a render whose clock is old is sent, also
  when the response of another call has recorded its time in the meantime.
\<close>

lemma overlapping_request_is_sent:
  "\<not> now - lastEnhancementTime st < 60000 \<Longrightarrow>
     lastEnhancementTime (fst (snd (improveWithAI_response cur (Json c) fin))) = fin
     \<and> filter isEnhanceFetch (improveWithAI_request st current ty now)
         = [Fetch ''/api/resume/enhance'' (ImproveRequest current ty)]"
  by (simp add: improveWithAI_response_def improveWithAI_request_def)

lemma improveWithAI_fetches:
  "filter isFetch (snd (snd (improveWithAI st current ty now resp now2))) =
     (if now - lastEnhancementTime st < 60000 then []
      else [Fetch ''/api/resume/enhance'' (ImproveRequest current ty)])"
  by (cases resp) (simp_all add: improveWithAI_def Let_def)

lemma improveWithAI_enhanceFetches:
  "filter isEnhanceFetch (snd (snd (improveWithAI st current ty now resp now2))) =
     (if now - lastEnhancementTime st < 60000 then []
      else [Fetch ''/api/resume/enhance'' (ImproveRequest current ty)])"
  by (cases resp) (simp_all add: improveWithAI_def Let_def)

lemma handleImproveSummary_clock:
  "lastEnhancementTime (fst (handleImproveSummary st now resp now2)) =
     (if summary (formValues st) = [] then lastEnhancementTime st
      else lastEnhancementTime (fst (snd (improveWithAI (st\<lparr>isImprovingSummary := True\<rparr>)
             (summary (formValues st)) ''summary'' now resp now2))))"
  by (simp add: handleImproveSummary_def split: prod.splits sum.splits)

lemma handleImproveSkills_clock:
  "lastEnhancementTime (fst (handleImproveSkills st now resp now2)) =
     (if skills (formValues st) = [] then lastEnhancementTime st
      else lastEnhancementTime (fst (snd (improveWithAI (st\<lparr>isImprovingSkills := True\<rparr>)
             (skills (formValues st)) ''skills'' now resp now2))))"
  by (simp add: handleImproveSkills_def split: prod.splits sum.splits)

lemma handleImproveSummary_fetches:
  "filter isFetch (snd (handleImproveSummary st now resp now2)) =
     (if summary (formValues st) = [] then []
      else filter isFetch (snd (snd (improveWithAI (st\<lparr>isImprovingSummary := True\<rparr>)
             (summary (formValues st)) ''summary'' now resp now2))))"
  by (simp add: handleImproveSummary_def split: prod.splits sum.splits)

lemma handleImproveSkills_fetches:
  "filter isFetch (snd (handleImproveSkills st now resp now2)) =
     (if skills (formValues st) = [] then []
      else filter isFetch (snd (snd (improveWithAI (st\<lparr>isImprovingSkills := True\<rparr>)
             (skills (formValues st)) ''skills'' now resp now2))))"
  by (simp add: handleImproveSkills_def split: prod.splits sum.splits)

lemma handleImproveSummary_enhanceFetches:
  "filter isEnhanceFetch (snd (handleImproveSummary st now resp now2)) =
     (if summary (formValues st) = [] then []
      else filter isEnhanceFetch (snd (snd (improveWithAI (st\<lparr>isImprovingSummary := True\<rparr>)
             (summary (formValues st)) ''summary'' now resp now2))))"
  by (simp add: handleImproveSummary_def split: prod.splits sum.splits)

lemma handleImproveSkills_enhanceFetches:
  "filter isEnhanceFetch (snd (handleImproveSkills st now resp now2)) =
     (if skills (formValues st) = [] then []
      else filter isEnhanceFetch (snd (snd (improveWithAI (st\<lparr>isImprovingSkills := True\<rparr>)
             (skills (formValues st)) ''skills'' now resp now2))))"
  by (simp add: handleImproveSkills_def split: prod.splits sum.splits)

lemma waitTime_positive: "now - lastTime < 60000 \<Longrightarrow> 0 < waitTime now lastTime"
  by (simp add: waitTime_def)

lemma wait_31: "numberToString 31 = ''31''"
  by code_simp


subsection \<open>The clock and the network in \<open>handleEnhanceResume\<close>\<close>

lemma updateFromContent_clock:
  "lastEnhancementTime (updateFromContent etm c st) = lastEnhancementTime st"
  by (cases c) simp_all

lemma handleEnhanceResume_clock:
  "lastEnhancementTime (fst (handleEnhanceResume etm st resp)) = lastEnhancementTime st"
  by (cases resp) (simp_all add: handleEnhanceResume_def Let_def updateFromContent_clock)

lemma enhanceCatch_no_fetch: "filter isEnhanceFetch (enhanceCatch m) = []"
  by (simp add: enhanceCatch_def)

lemma handleEnhanceResume_events:
  "snd (handleEnhanceResume etm (st\<lparr>lastEnhancementTime := t\<rparr>) resp)
     = snd (handleEnhanceResume etm st resp)"
  by (cases resp) (simp_all add: handleEnhanceResume_def Let_def)

lemma handleEnhanceResume_enhanceFetches:
  "filter isEnhanceFetch (snd (handleEnhanceResume etm st resp)) =
     (if summary (formValues st) = [] \<and> skills (formValues st) = [] \<and> experience (formValues st) = []
      then [] else [Fetch ''/api/resume/enhance'' (EnhanceRequest (formValues st))])"
  by (cases resp) (simp_all add: handleEnhanceResume_def Let_def enhanceCatch_no_fetch)

subsection \<open>What a response content does to the form\<close>

lemma setText_summary:
  "setText Summary v fv = fv\<lparr>summary := overwritten v (summary fv)\<rparr>"
  by (cases v) simp_all

lemma setText_skills:
  "setText Skills v fv = fv\<lparr>skills := overwritten v (skills fv)\<rparr>"
  by (cases v) simp_all

lemma setEntries_experience:
  "setEntries Experience v fv = fv\<lparr>experience := overwritten v (experience fv)\<rparr>"
  by (cases v) simp_all

lemma setEntries_education:
  "setEntries Education v fv = fv\<lparr>education := overwritten v (education fv)\<rparr>"
  by (cases v) simp_all

lemma setEntries_projects:
  "setEntries Projects v fv = fv\<lparr>projects := overwritten v (projects fv)\<rparr>"
  by (cases v) simp_all

lemma applyContent_fields:
  "applyContent c fv =
     fv\<lparr>summary := overwritten (r_summary c) (summary fv),
        skills := overwritten (r_skills c) (skills fv),
        experience := overwritten (r_experience c) (experience fv),
        education := overwritten (r_education c) (education fv),
        projects := overwritten (r_projects c) (projects fv)\<rparr>"
  by (simp add: applyContent_def setText_summary setText_skills setEntries_experience
        setEntries_education setEntries_projects)

lemma overwritten_nonEmpty: "overwritten (nonEmpty v) old = overwritten v old"
  by (cases v) simp_all

lemma applyContent_dropEmpty: "applyContent (dropEmpty c) fv = applyContent c fv"
  by (simp add: applyContent_fields dropEmpty_def overwritten_nonEmpty)

lemma handleEnhanceResume_formValues:
  "\<not> (summary (formValues st) = [] \<and> skills (formValues st) = [] \<and> experience (formValues st) = []) \<Longrightarrow>
     formValues (fst (handleEnhanceResume etm st (Json (Some c)))) = applyContent c (formValues st)"
  by (auto simp: handleEnhanceResume_def Let_def)

subsection \<open>The tab and the displayed text\<close>

lemma handleImproveSummary_frame:
  "activeTab (fst (handleImproveSummary st now resp now2)) = activeTab st
   \<and> previewContent (fst (handleImproveSummary st now resp now2)) = previewContent st"
  by (cases resp)
     (simp_all add: handleImproveSummary_def improveWithAI_def Let_def split: prod.splits sum.splits)

lemma handleImproveSkills_frame:
  "activeTab (fst (handleImproveSkills st now resp now2)) = activeTab st
   \<and> previewContent (fst (handleImproveSkills st now resp now2)) = previewContent st"
  by (cases resp)
     (simp_all add: handleImproveSkills_def improveWithAI_def Let_def split: prod.splits sum.splits)

lemma handleEnhanceResume_tab:
  "activeTab (fst (handleEnhanceResume etm st resp)) = activeTab st"
proof (cases resp)
  case (Json c)
  then show ?thesis by (cases c) (simp_all add: handleEnhanceResume_def Let_def)
qed (simp_all add: handleEnhanceResume_def Let_def)

lemma handleFileUpload_tab:
  "activeTab (fst (handleFileUpload etm st upload resp)) = activeTab st"
proof (cases resp)
  case (Json c)
  then show ?thesis
    by (cases c; cases upload) (simp_all add: handleFileUpload_def Let_def)
qed (cases upload; simp add: handleFileUpload_def Let_def)+

lemma getCombinedContent_any_tab:
  "getCombinedContent etm (st\<lparr>activeTab := t\<rparr>) = getCombinedContent etm st"
  by (simp add: getCombinedContent_def getContactMarkdown_def)

lemma updateFromContent_any_tab:
  "updateFromContent etm c (st\<lparr>activeTab := t\<rparr>) = (updateFromContent etm c st)\<lparr>activeTab := t\<rparr>"
  by (cases c) (simp_all add: getCombinedContent_any_tab)

lemma handleEnhanceResume_any_tab:
  "handleEnhanceResume etm (st\<lparr>activeTab := t\<rparr>) r
     = (case handleEnhanceResume etm st r of (s, evs) \<Rightarrow> (s\<lparr>activeTab := t\<rparr>, evs))"
  by (cases r) (simp_all add: handleEnhanceResume_def Let_def updateFromContent_any_tab)

lemma handleFileUpload_any_tab:
  "handleFileUpload etm (st\<lparr>activeTab := t\<rparr>) upload r
     = (case handleFileUpload etm st upload r of (s, evs) \<Rightarrow> (s\<lparr>activeTab := t\<rparr>, evs))"
  by (cases r; cases upload) (simp_all add: handleFileUpload_def Let_def updateFromContent_any_tab)

lemma previewEffect_preview:
  "activeTab st = Preview \<Longrightarrow> previewEffect etm st = st"
  by (simp add: previewEffect_def)

lemma seeded_eq:
  "seeded = (initialState (Some ''old''))\<lparr>previewContent := Some ''old''\<rparr>"
  by (simp add: seeded_def selectTab_def mount_def previewEffect_def tabEffect_def initialState_def
      Let_def getCombinedContent_def getContactMarkdown_def defaultValues_def entriesToMarkdown_def)

lemma improved_eq:
  "improved = draft\<lparr>formValues := (formValues draft)\<lparr>summary := ''T''\<rparr>,
                     lastEnhancementTime := 1000700\<rparr>"
  by (simp add: improved_def handleImproveSummary_def improveWithAI_def draft_def
        initialState_def defaultValues_def)

section \<open>The properties\<close>

text \<open>
  C1, as stated, fails: 300 ms after the improvement of the summary was recorded at time
  1000700, \<open>handleEnhanceResume\<close> still calls \<open>/api/resume/enhance\<close>, since it does not
  look at \<open>lastEnhancementTime\<close>.
\<close>

theorem handleEnhanceResume_within_cooldown:
  "lastEnhancementTime improved = 1000700
   \<and> (1001000::int) - lastEnhancementTime improved < 60000
   \<and> filter isEnhanceFetch
        (snd (handleEnhanceResume entriesToMarkdown improved (Json (Some partialContent))))
       = [Fetch ''/api/resume/enhance'' (EnhanceRequest (formValues improved))]"
  by (simp add: handleEnhanceResume_enhanceFetches improved_eq draft_def initialState_def
        defaultValues_def)

text \<open>
  C1, amended: \<open>improveWithAI\<close> checks the clock once, when the call starts, against the
  \<open>lastEnhancementTime\<close> of its render; when that check finds less than 60 seconds since
  the recorded time, the call never calls the enhancement service, for the summary and
  for the skills alike. Both kinds record a successful response in the same single cell,
  so a call of either kind that starts after a success of either kind was recorded, and
  within 60 seconds of it, makes no request. \<open>handleEnhanceResume\<close> neither consults nor
  updates that clock and calls the service whenever summary, skills and experience are
  not all empty. Nothing is said here about a call that starts before the success of
  another call is recorded.
\<close>

theorem cooldown_gates_improve_only:
  "(now - lastEnhancementTime st < 60000 \<longrightarrow>
      filter isEnhanceFetch (improveWithAI_request st current ty now) = []
      \<and> filter isEnhanceFetch (snd (handleImproveSummary st now resp fin)) = []
      \<and> filter isEnhanceFetch (snd (handleImproveSkills st now resp fin)) = [])
   \<and> lastEnhancementTime (fst (snd (improveWithAI_response cur (Json cr) tr))) = tr
   \<and> (summary (formValues sa) \<noteq> [] \<and> \<not> ta - lastEnhancementTime sa < 60000
        \<and> tb \<le> tc \<and> tc - tb < 60000 \<longrightarrow>
      filter isEnhanceFetch
        (snd (handleImproveSkills (fst (handleImproveSummary sa ta (Json ca) tb)) tc ra td)) = []
      \<and> filter isEnhanceFetch
        (snd (handleImproveSummary (fst (handleImproveSummary sa ta (Json ca) tb)) tc ra td)) = [])
   \<and> (skills (formValues sb) \<noteq> [] \<and> \<not> ua - lastEnhancementTime sb < 60000
        \<and> ub \<le> uc \<and> uc - ub < 60000 \<longrightarrow>
      filter isEnhanceFetch
        (snd (handleImproveSummary (fst (handleImproveSkills sb ua (Json cb) ub)) uc rb ud)) = []
      \<and> filter isEnhanceFetch
        (snd (handleImproveSkills (fst (handleImproveSkills sb ua (Json cb) ub)) uc rb ud)) = [])
   \<and> snd (handleEnhanceResume etm (se\<lparr>lastEnhancementTime := t\<rparr>) r) = snd (handleEnhanceResume etm se r)
   \<and> lastEnhancementTime (fst (handleEnhanceResume etm se r)) = lastEnhancementTime se
   \<and> (\<not> (summary (formValues se) = [] \<and> skills (formValues se) = [] \<and> experience (formValues se) = []) \<longrightarrow>
      filter isEnhanceFetch (snd (handleEnhanceResume etm se r))
        = [Fetch ''/api/resume/enhance'' (EnhanceRequest (formValues se))])"
proof (intro conjI impI)
  assume busy: "now - lastEnhancementTime st < 60000"
  then show "filter isEnhanceFetch (improveWithAI_request st current ty now) = []"
    by (simp add: improveWithAI_request_def)
  from busy show "filter isEnhanceFetch (snd (handleImproveSummary st now resp fin)) = []"
    and "filter isEnhanceFetch (snd (handleImproveSkills st now resp fin)) = []"
    by (simp_all add: handleImproveSummary_enhanceFetches handleImproveSkills_enhanceFetches
          improveWithAI_enhanceFetches)
next
  show "lastEnhancementTime (fst (snd (improveWithAI_response cur (Json cr) tr))) = tr"
    by (simp add: improveWithAI_response_clock)
next
  assume a: "summary (formValues sa) \<noteq> [] \<and> \<not> ta - lastEnhancementTime sa < 60000
        \<and> tb \<le> tc \<and> tc - tb < 60000"
  then have "lastEnhancementTime (fst (handleImproveSummary sa ta (Json ca) tb)) = tb"
    by (simp add: handleImproveSummary_clock improveWithAI_clock)
  with a show "filter isEnhanceFetch
        (snd (handleImproveSkills (fst (handleImproveSummary sa ta (Json ca) tb)) tc ra td)) = []"
    and "filter isEnhanceFetch
        (snd (handleImproveSummary (fst (handleImproveSummary sa ta (Json ca) tb)) tc ra td)) = []"
    by (simp_all add: handleImproveSkills_enhanceFetches handleImproveSummary_enhanceFetches
          improveWithAI_enhanceFetches)
next
  assume a: "skills (formValues sb) \<noteq> [] \<and> \<not> ua - lastEnhancementTime sb < 60000
        \<and> ub \<le> uc \<and> uc - ub < 60000"
  then have "lastEnhancementTime (fst (handleImproveSkills sb ua (Json cb) ub)) = ub"
    by (simp add: handleImproveSkills_clock improveWithAI_clock)
  with a show "filter isEnhanceFetch
        (snd (handleImproveSummary (fst (handleImproveSkills sb ua (Json cb) ub)) uc rb ud)) = []"
    and "filter isEnhanceFetch
        (snd (handleImproveSkills (fst (handleImproveSkills sb ua (Json cb) ub)) uc rb ud)) = []"
    by (simp_all add: handleImproveSkills_enhanceFetches handleImproveSummary_enhanceFetches
          improveWithAI_enhanceFetches)
next
  show "snd (handleEnhanceResume etm (se\<lparr>lastEnhancementTime := t\<rparr>) r) = snd (handleEnhanceResume etm se r)"
    by (rule handleEnhanceResume_events)
  show "lastEnhancementTime (fst (handleEnhanceResume etm se r)) = lastEnhancementTime se"
    by (rule handleEnhanceResume_clock)
next
  assume "\<not> (summary (formValues se) = [] \<and> skills (formValues se) = [] \<and> experience (formValues se) = [])"
  then show "filter isEnhanceFetch (snd (handleEnhanceResume etm se r))
        = [Fetch ''/api/resume/enhance'' (EnhanceRequest (formValues se))]"
    by (simp add: handleEnhanceResume_enhanceFetches)
qed

theorem cooldown_gates_improve_only_witness:
  "(1001000::int) - lastEnhancementTime improved < 60000
   \<and> filter isEnhanceFetch (improveWithAI_request improved ''K'' ''skills'' 1001000) = []
   \<and> filter isEnhanceFetch (snd (handleImproveSummary improved 1001000 (Json (Some ''U'')) 1001900)) = []
   \<and> filter isEnhanceFetch (snd (handleImproveSkills improved 1001000 (Json (Some ''U'')) 1001900)) = []
   \<and> summary (formValues draft) \<noteq> [] \<and> skills (formValues draft) \<noteq> []
   \<and> \<not> (1000000::int) - lastEnhancementTime draft < 60000
   \<and> (1000700::int) \<le> 1001000 \<and> (1001000::int) - 1000700 < 60000
   \<and> filter isEnhanceFetch
        (snd (handleImproveSkills (fst (handleImproveSummary draft 1000000 (Json (Some ''T'')) 1000700))
                1001000 (Json (Some ''U'')) 1001900)) = []
   \<and> filter isEnhanceFetch
        (snd (handleImproveSummary (fst (handleImproveSkills draft 1000000 (Json (Some ''T'')) 1000700))
                1001000 (Json (Some ''U'')) 1001900)) = []
   \<and> lastEnhancementTime
        (fst (handleEnhanceResume entriesToMarkdown improved (Json (Some partialContent)))) = 1000700
   \<and> filter isEnhanceFetch
        (snd (handleEnhanceResume entriesToMarkdown improved (Json (Some partialContent))))
       = [Fetch ''/api/resume/enhance'' (EnhanceRequest (formValues improved))]"
  using cooldown_gates_improve_only
    [where now = 1001000 and st = improved and current = "''K''" and ty = "''skills''"
       and resp = "Json (Some ''U'')" and fin = 1001900
       and cur = improved and cr = "Some ''U''" and tr = 1001900
       and sa = draft and ta = 1000000 and ca = "Some ''T''" and tb = 1000700 and tc = 1001000
       and ra = "Json (Some ''U'')" and td = 1001900
       and sb = draft and ua = 1000000 and cb = "Some ''T''" and ub = 1000700 and uc = 1001000
       and rb = "Json (Some ''U'')" and ud = 1001900
       and etm = entriesToMarkdown and se = improved and t = 0 and r = "Json (Some partialContent)"]
  by (simp add: improved_eq draft_def initialState_def defaultValues_def)

text \<open>
  C2, as stated, fails: on the markdown tab, where the user has typed \<open>X\<close>, a response of
  the whole-resume enhancement that carries a content replaces the displayed text; the
  render that follows does not bring \<open>X\<close> back.
\<close>

theorem enhance_overwrites_markdown:
  "activeTab draftPreview = Preview \<and> previewContent draftPreview = Some ''X''
   \<and> previewContent
        (previewEffect entriesToMarkdown
           (fst (handleEnhanceResume entriesToMarkdown draftPreview (Json (Some partialContent)))))
       \<noteq> Some ''X''"
  by (simp add: previewEffect_def handleEnhanceResume_def Let_def draftPreview_def editMarkdown_def
        draft_def initialState_def getCombinedContent_def getContactMarkdown_def defaultValues_def)

text \<open>
  C2, amended: while the markdown tab is active, a field setter and the result of an
  improvement of the summary or of the skills update the form and leave the displayed
  text unchanged, also after the render they cause. The whole-resume enhancement (when
  summary, skills and experience are not all empty) and the import of a file, when the
  response carries a content, update the form and set the displayed text to a projection
  of the form, on either tab: what they do does not depend on the tab, and on the
  markdown tab the render that follows leaves their state as it is. Whether that
  projection already shows the fields just written is left open here.
\<close>

theorem markdown_writers:
  "(activeTab st = Preview \<longrightarrow>
      formValues (editField etm f st) = setValue f (formValues st)
      \<and> previewContent (editField etm f st) = previewContent st
      \<and> previewContent (previewEffect etm (fst (handleImproveSummary st now resp fin))) = previewContent st
      \<and> previewContent (previewEffect etm (fst (handleImproveSkills st now resp fin))) = previewContent st)
   \<and> (summary (formValues st) \<noteq> [] \<and> \<not> now - lastEnhancementTime st < 60000 \<and> v \<noteq> [] \<longrightarrow>
      formValues (fst (handleImproveSummary st now (Json (Some v)) fin))
        = setValue (Summary v) (formValues st))
   \<and> (skills (formValues st) \<noteq> [] \<and> \<not> now - lastEnhancementTime st < 60000 \<and> v \<noteq> [] \<longrightarrow>
      formValues (fst (handleImproveSkills st now (Json (Some v)) fin))
        = setValue (Skills v) (formValues st))
   \<and> (\<not> (summary (formValues st) = [] \<and> skills (formValues st) = [] \<and> experience (formValues st) = []) \<longrightarrow>
      formValues (fst (handleEnhanceResume etm st (Json (Some c)))) = applyContent c (formValues st)
      \<and> (previewContent (fst (handleEnhanceResume etm st (Json (Some c))))
            = Some (getCombinedContent etm st)
          \<or> previewContent (fst (handleEnhanceResume etm st (Json (Some c))))
            = Some (getCombinedContent etm (fst (handleEnhanceResume etm st (Json (Some c)))))))
   \<and> formValues (fst (handleFileUpload etm st (Some bytes) (Json (Some c)))) = applyContent c (formValues st)
   \<and> (previewContent (fst (handleFileUpload etm st (Some bytes) (Json (Some c))))
         = Some (getCombinedContent etm st)
       \<or> previewContent (fst (handleFileUpload etm st (Some bytes) (Json (Some c))))
         = Some (getCombinedContent etm (fst (handleFileUpload etm st (Some bytes) (Json (Some c))))))
   \<and> handleEnhanceResume etm (st\<lparr>activeTab := t\<rparr>) r
       = (case handleEnhanceResume etm st r of (s, evs) \<Rightarrow> (s\<lparr>activeTab := t\<rparr>, evs))
   \<and> handleFileUpload etm (st\<lparr>activeTab := t\<rparr>) upload r
       = (case handleFileUpload etm st upload r of (s, evs) \<Rightarrow> (s\<lparr>activeTab := t\<rparr>, evs))
   \<and> (activeTab st = Preview \<longrightarrow>
      previewEffect etm (fst (handleEnhanceResume etm st r)) = fst (handleEnhanceResume etm st r)
      \<and> previewEffect etm (fst (handleFileUpload etm st upload r)) = fst (handleFileUpload etm st upload r))"
proof (intro conjI impI)
  assume p: "activeTab st = Preview"
  show "formValues (editField etm f st) = setValue f (formValues st)"
    and "previewContent (editField etm f st) = previewContent st"
    using p by (simp_all add: editField_def previewEffect_def)
  show "previewContent (previewEffect etm (fst (handleImproveSummary st now resp fin))) = previewContent st"
    using p by (simp add: previewEffect_preview handleImproveSummary_frame)
  show "previewContent (previewEffect etm (fst (handleImproveSkills st now resp fin))) = previewContent st"
    using p by (simp add: previewEffect_preview handleImproveSkills_frame)
next
  assume "summary (formValues st) \<noteq> [] \<and> \<not> now - lastEnhancementTime st < 60000 \<and> v \<noteq> []"
  then show "formValues (fst (handleImproveSummary st now (Json (Some v)) fin))
        = setValue (Summary v) (formValues st)"
    by (simp add: handleImproveSummary_def improveWithAI_def)
next
  assume "skills (formValues st) \<noteq> [] \<and> \<not> now - lastEnhancementTime st < 60000 \<and> v \<noteq> []"
  then show "formValues (fst (handleImproveSkills st now (Json (Some v)) fin))
        = setValue (Skills v) (formValues st)"
    by (simp add: handleImproveSkills_def improveWithAI_def)
next
  assume g: "\<not> (summary (formValues st) = [] \<and> skills (formValues st) = [] \<and> experience (formValues st) = [])"
  then show "formValues (fst (handleEnhanceResume etm st (Json (Some c)))) = applyContent c (formValues st)"
    by (rule handleEnhanceResume_formValues)
  from g have "previewContent (fst (handleEnhanceResume etm st (Json (Some c))))
            = Some (getCombinedContent etm st)"
    by (auto simp: handleEnhanceResume_def Let_def)
  then show "previewContent (fst (handleEnhanceResume etm st (Json (Some c))))
            = Some (getCombinedContent etm st)
          \<or> previewContent (fst (handleEnhanceResume etm st (Json (Some c))))
            = Some (getCombinedContent etm (fst (handleEnhanceResume etm st (Json (Some c)))))"
    by (rule disjI1)
next
  show "formValues (fst (handleFileUpload etm st (Some bytes) (Json (Some c)))) = applyContent c (formValues st)"
    by (simp add: handleFileUpload_def Let_def)
  have "previewContent (fst (handleFileUpload etm st (Some bytes) (Json (Some c))))
         = Some (getCombinedContent etm st)"
    by (simp add: handleFileUpload_def Let_def)
  then show "previewContent (fst (handleFileUpload etm st (Some bytes) (Json (Some c))))
         = Some (getCombinedContent etm st)
       \<or> previewContent (fst (handleFileUpload etm st (Some bytes) (Json (Some c))))
         = Some (getCombinedContent etm (fst (handleFileUpload etm st (Some bytes) (Json (Some c)))))"
    by (rule disjI1)
next
  show "handleEnhanceResume etm (st\<lparr>activeTab := t\<rparr>) r
       = (case handleEnhanceResume etm st r of (s, evs) \<Rightarrow> (s\<lparr>activeTab := t\<rparr>, evs))"
    by (rule handleEnhanceResume_any_tab)
  show "handleFileUpload etm (st\<lparr>activeTab := t\<rparr>) upload r
       = (case handleFileUpload etm st upload r of (s, evs) \<Rightarrow> (s\<lparr>activeTab := t\<rparr>, evs))"
    by (rule handleFileUpload_any_tab)
next
  assume p: "activeTab st = Preview"
  show "previewEffect etm (fst (handleEnhanceResume etm st r)) = fst (handleEnhanceResume etm st r)"
    using p by (simp add: previewEffect_preview handleEnhanceResume_tab)
  show "previewEffect etm (fst (handleFileUpload etm st upload r)) = fst (handleFileUpload etm st upload r)"
    using p by (simp add: previewEffect_preview handleFileUpload_tab)
qed

theorem markdown_writers_witness:
  "activeTab draftPreview = Preview
   \<and> summary (formValues draftPreview) \<noteq> [] \<and> skills (formValues draftPreview) \<noteq> []
   \<and> \<not> (1100000::int) - lastEnhancementTime draftPreview < 60000
   \<and> summary (formValues (editField entriesToMarkdown (Summary ''T'') draftPreview)) = ''T''
   \<and> previewContent (editField entriesToMarkdown (Summary ''T'') draftPreview) = Some ''X''
   \<and> summary (formValues (fst (handleImproveSummary draftPreview 1100000 (Json (Some ''T'')) 1100700)))
       = ''T''
   \<and> skills (formValues (fst (handleImproveSkills draftPreview 1100000 (Json (Some ''T'')) 1100700)))
       = ''T''
   \<and> previewContent
        (previewEffect entriesToMarkdown
           (fst (handleImproveSummary draftPreview 1100000 (Json (Some ''T'')) 1100700))) = Some ''X''
   \<and> previewContent
        (previewEffect entriesToMarkdown
           (fst (handleImproveSkills draftPreview 1100000 (Json (Some ''T'')) 1100700))) = Some ''X''
   \<and> summary (formValues (fst (handleEnhanceResume entriesToMarkdown draftPreview
                                 (Json (Some partialContent))))) = ''T''
   \<and> summary (formValues (fst (handleFileUpload entriesToMarkdown draftPreview (Some ''%PDF'')
                                 (Json (Some partialContent))))) = ''T''"
  using markdown_writers
    [where st = draftPreview and etm = entriesToMarkdown and f = "Summary ''T''" and now = 1100000
       and resp = "Json (Some ''T'')" and fin = 1100700 and v = "''T''" and c = partialContent
       and bytes = "''%PDF''" and r = "Json (Some partialContent)" and upload = "Some ''%PDF''"
       and t = Preview]
  by (simp add: draftPreview_def editMarkdown_def draft_def initialState_def defaultValues_def
        applyContent_fields partialContent_def)

text \<open>
  C3: the projection is to be a function of the form alone, so that two calls with no
  write to the form between them return the same bytes. The code breaks this where
  \<open>handleEnhanceResume\<close> calls \<open>getCombinedContent()\<close> (line 520) after its own
  \<open>setValue\<close> calls: on a form whose summary is \<open>S\<close>, with a response that brings the
  summary \<open>T\<close> and the skills \<open>K2\<close>, the form holds \<open>T\<close> and \<open>K2\<close> when that call returns
  the text of \<open>S\<close>, and the call of the effect in the next render (line 138), with the
  form untouched in between, returns the text of \<open>T\<close> and \<open>K2\<close>.
\<close>

theorem projection_differs_without_mutation:
  "activeTab enhanced = Edit
   \<and> formValues enhanced = defaultValues\<lparr>summary := ''T'', skills := ''K2''\<rparr>
   \<and> previewContent enhanced = Some ''## Professional Summary\<newline>\<newline>S''
   \<and> formValues (previewEffect entriesToMarkdown enhanced) = formValues enhanced
   \<and> previewContent (previewEffect entriesToMarkdown enhanced)
       = Some ''## Professional Summary\<newline>\<newline>T\<newline>\<newline>## Skills\<newline>\<newline>K2''"
  by (simp add: enhanced_def summaryOnly_def handleEnhanceResume_def Let_def previewEffect_def
        applyContent_fields partialContent_def initialState_def defaultValues_def
        getCombinedContent_def getContactMarkdown_def entriesToMarkdown_def)

text \<open>
  C4: a call of \<open>improveWithAI\<close> made when \<open>now - lastEnhancementTime < 60000\<close> returns
  \<open>null\<close>, leaves the state as it was and only raises the toast that carries the ceiling
  of the remaining seconds, which is positive; the handlers of the summary and of the
  skills then make no request. After a successful improvement of the summary, which made
  one request, a second call within 60 seconds of it makes none.
\<close>

theorem improveSection_busy:
  "(now - lastEnhancementTime st < 60000 \<longrightarrow>
      improveWithAI st current ty now resp fin =
        (Inr None, st,
         [ToastError (''Please wait ''
            @ numberToString \<lceil>real_of_int (60000 - (now - lastEnhancementTime st)) / 1000\<rceil>
            @ '' seconds before trying again.'')])
      \<and> 0 < \<lceil>real_of_int (60000 - (now - lastEnhancementTime st)) / 1000\<rceil>
      \<and> filter isFetch (snd (handleImproveSummary st now resp fin)) = []
      \<and> filter isFetch (snd (handleImproveSkills st now resp fin)) = []
      \<and> (summary (formValues st) \<noteq> [] \<longrightarrow>
           handleImproveSummary st now resp fin =
             (st\<lparr>isImprovingSummary := False\<rparr>,
              [ToastInfo ''Improving your summary... This may take a moment.'',
               ToastError (''Please wait ''
                 @ numberToString \<lceil>real_of_int (60000 - (now - lastEnhancementTime st)) / 1000\<rceil>
                 @ '' seconds before trying again.'')])))
   \<and> (summary (formValues sa) \<noteq> [] \<and> \<not> ta - lastEnhancementTime sa < 60000
        \<and> tc - tb < 60000 \<longrightarrow>
      filter isFetch (snd (handleImproveSummary sa ta (Json c) tb))
        = [Fetch ''/api/resume/enhance'' (ImproveRequest (summary (formValues sa)) ''summary'')]
      \<and> filter isFetch
           (snd (handleImproveSummary (fst (handleImproveSummary sa ta (Json c) tb)) tc ra td)) = [])"
proof (intro conjI impI)
  assume busy: "now - lastEnhancementTime st < 60000"
  show "improveWithAI st current ty now resp fin =
        (Inr None, st,
         [ToastError (''Please wait ''
            @ numberToString \<lceil>real_of_int (60000 - (now - lastEnhancementTime st)) / 1000\<rceil>
            @ '' seconds before trying again.'')])"
    using improveWithAI_busy [OF busy] by (simp add: waitTime_def)
  show "0 < \<lceil>real_of_int (60000 - (now - lastEnhancementTime st)) / 1000\<rceil>"
    using waitTime_positive [OF busy] by (simp add: waitTime_def)
  show "filter isFetch (snd (handleImproveSummary st now resp fin)) = []"
    using busy by (simp add: handleImproveSummary_fetches improveWithAI_fetches)
  show "filter isFetch (snd (handleImproveSkills st now resp fin)) = []"
    using busy by (simp add: handleImproveSkills_fetches improveWithAI_fetches)
  show "handleImproveSummary st now resp fin =
             (st\<lparr>isImprovingSummary := False\<rparr>,
              [ToastInfo ''Improving your summary... This may take a moment.'',
               ToastError (''Please wait ''
                 @ numberToString \<lceil>real_of_int (60000 - (now - lastEnhancementTime st)) / 1000\<rceil>
                 @ '' seconds before trying again.'')])"
    if "summary (formValues st) \<noteq> []"
    using busy that by (simp add: handleImproveSummary_def improveWithAI_busy waitTime_def)
next
  assume a: "summary (formValues sa) \<noteq> [] \<and> \<not> ta - lastEnhancementTime sa < 60000
        \<and> tc - tb < 60000"
  show "filter isFetch (snd (handleImproveSummary sa ta (Json c) tb))
        = [Fetch ''/api/resume/enhance'' (ImproveRequest (summary (formValues sa)) ''summary'')]"
    using a by (simp add: handleImproveSummary_fetches improveWithAI_fetches)
  have "lastEnhancementTime (fst (handleImproveSummary sa ta (Json c) tb)) = tb"
    using a by (simp add: handleImproveSummary_clock improveWithAI_clock)
  with a show "filter isFetch
           (snd (handleImproveSummary (fst (handleImproveSummary sa ta (Json c) tb)) tc ra td)) = []"
    by (simp add: handleImproveSummary_fetches improveWithAI_fetches)
qed

theorem improveSection_busy_witness:
  "(1030000::int) - lastEnhancementTime draftPreview < 60000
   \<and> improveWithAI draftPreview ''S'' ''summary'' 1030000 (Json (Some ''T'')) 1030900
       = (Inr None, draftPreview, [ToastError ''Please wait 31 seconds before trying again.''])
   \<and> filter isFetch (snd (handleImproveSummary draftPreview 1030000 (Json (Some ''T'')) 1030900)) = []
   \<and> filter isFetch (snd (handleImproveSkills draftPreview 1030000 (Json (Some ''T'')) 1030900)) = []
   \<and> handleImproveSummary draftPreview 1030000 (Json (Some ''T'')) 1030900
       = (draftPreview,
          [ToastInfo ''Improving your summary... This may take a moment.'',
           ToastError ''Please wait 31 seconds before trying again.''])
   \<and> summary (formValues draft) \<noteq> [] \<and> \<not> (1000000::int) - lastEnhancementTime draft < 60000
   \<and> (1030000::int) - 1000700 < 60000
   \<and> filter isFetch (snd (handleImproveSummary draft 1000000 (Json (Some ''T'')) 1000700))
       = [Fetch ''/api/resume/enhance'' (ImproveRequest ''S'' ''summary'')]
   \<and> filter isFetch
        (snd (handleImproveSummary (fst (handleImproveSummary draft 1000000 (Json (Some ''T'')) 1000700))
                1030000 (Json (Some ''U'')) 1030900)) = []"
  using improveSection_busy
    [where now = 1030000 and st = draftPreview and current = "''S''" and ty = "''summary''"
       and resp = "Json (Some ''T'')" and fin = 1030900
       and sa = draft and ta = 1000000 and c = "Some ''T''" and tb = 1000700 and tc = 1030000
       and ra = "Json (Some ''U'')" and td = 1030900]
  by (simp add: draftPreview_def editMarkdown_def draft_def initialState_def defaultValues_def wait_31)


text \<open>
  C6: the emptiness check comes first. With an empty summary \<open>handleImproveSummary\<close>
  only raises its error toast and returns the state it was given, whatever the clock and
  the response are, and so does \<open>handleImproveSkills\<close> with empty skills; with summary,
  skills and experience all empty \<open>handleEnhanceResume\<close> does the same. No event of
  these runs is a request.
\<close>

theorem empty_input_checked_first:
  "(summary (formValues st) = [] \<longrightarrow>
      handleImproveSummary st now resp fin = (st, [ToastError ''Please enter a summary first'']))
   \<and> (skills (formValues st) = [] \<longrightarrow>
      handleImproveSkills st now resp fin = (st, [ToastError ''Please enter skills first'']))
   \<and> (summary (formValues st) = [] \<and> skills (formValues st) = [] \<and> experience (formValues st) = [] \<longrightarrow>
      handleEnhanceResume etm st r = (st, [ToastError ''Please add some content to your resume first'']))"
  by (simp add: handleImproveSummary_def handleImproveSkills_def handleEnhanceResume_def)

theorem empty_input_checked_first_witness:
  "summary (formValues (initialState None)) = []
   \<and> skills (formValues (initialState None)) = []
   \<and> experience (formValues (initialState None)) = []
   \<and> handleImproveSummary (initialState None) 1000000 (Json (Some ''T'')) 1000700
       = (initialState None, [ToastError ''Please enter a summary first''])
   \<and> handleImproveSkills (initialState None) 1000000 (Json (Some ''T'')) 1000700
       = (initialState None, [ToastError ''Please enter skills first''])
   \<and> handleEnhanceResume entriesToMarkdown (initialState None) (Json (Some partialContent))
       = (initialState None, [ToastError ''Please add some content to your resume first''])"
  using empty_input_checked_first
    [where st = "initialState None" and now = 1000000 and resp = "Json (Some ''T'')"
       and fin = 1000700 and etm = entriesToMarkdown and r = "Json (Some partialContent)"]
  by (simp add: initialState_def defaultValues_def)

text \<open>
  C7, as stated, fails: a summary that is present in the response as the empty string
  does not overwrite the summary of the form.
\<close>

theorem empty_summary_not_written:
  "r_summary hollowContent = Some []
   \<and> summary (formValues (fst (handleEnhanceResume entriesToMarkdown draft (Json (Some hollowContent)))))
       = ''S''"
  by (simp add: handleEnhanceResume_def Let_def applyContent_fields hollowContent_def draft_def
        initialState_def defaultValues_def)

text \<open>
  C7, amended: for every successful response of the whole-resume enhancement that
  carries a content, exactly the fields that are present and non-empty in it (among
  summary, skills, experience, education, projects) overwrite the fields of the form;
  every field that is absent or empty, and the contact, is left untouched. A response
  without a content leaves the whole form untouched.
\<close>

theorem handleEnhanceResume_partial_update:
  assumes "\<not> (summary (formValues st) = [] \<and> skills (formValues st) = [] \<and> experience (formValues st) = [])"
  shows "formValues (fst (handleEnhanceResume etm st (Json (Some c)))) =
           (formValues st)
             \<lparr>summary := overwritten (r_summary c) (summary (formValues st)),
              skills := overwritten (r_skills c) (skills (formValues st)),
              experience := overwritten (r_experience c) (experience (formValues st)),
              education := overwritten (r_education c) (education (formValues st)),
              projects := overwritten (r_projects c) (projects (formValues st))\<rparr>
       \<and> formValues (fst (handleEnhanceResume etm st (Json None))) = formValues st"
proof
  show "formValues (fst (handleEnhanceResume etm st (Json (Some c)))) =
           (formValues st)
             \<lparr>summary := overwritten (r_summary c) (summary (formValues st)),
              skills := overwritten (r_skills c) (skills (formValues st)),
              experience := overwritten (r_experience c) (experience (formValues st)),
              education := overwritten (r_education c) (education (formValues st)),
              projects := overwritten (r_projects c) (projects (formValues st))\<rparr>"
    using assms by (simp add: handleEnhanceResume_formValues applyContent_fields)
  show "formValues (fst (handleEnhanceResume etm st (Json None))) = formValues st"
    by (simp add: handleEnhanceResume_def Let_def)
qed

theorem handleEnhanceResume_partial_update_witness:
  "\<not> (summary (formValues draft) = [] \<and> skills (formValues draft) = [] \<and> experience (formValues draft) = [])
   \<and> r_education partialContent = None
   \<and> formValues (fst (handleEnhanceResume entriesToMarkdown draft (Json (Some partialContent))))
       = (formValues draft)\<lparr>summary := ''T'', skills := ''K2''\<rparr>
   \<and> education (formValues (fst (handleEnhanceResume entriesToMarkdown draft (Json (Some partialContent)))))
       = [bsc]"
  using handleEnhanceResume_partial_update [of draft entriesToMarkdown partialContent]
  by (simp add: draft_def initialState_def defaultValues_def partialContent_def)

text \<open>
  C8: when summary, skills and the three lists are empty and only the name \<open>Ana\<close> of the
  contact is entered, the projection is exactly the contact section with \<open>**Ana**\<close>: no
  other section and no separator. The renderer of the entry lists is assumed to return
  the empty string on an empty list, as the spec says it does.
\<close>

theorem getCombinedContent_only_name:
  assumes "name (contactInfo (formValues st)) = Some ''Ana''"
    and "\<not> truthy (email (contactInfo (formValues st)))"
    and "\<not> truthy (mobile (contactInfo (formValues st)))"
    and "\<not> truthy (linkedin (contactInfo (formValues st)))"
    and "\<not> truthy (twitter (contactInfo (formValues st)))"
    and "summary (formValues st) = []" and "skills (formValues st) = []"
    and "experience (formValues st) = []" and "education (formValues st) = []"
    and "projects (formValues st) = []"
    and "\<And>ty. etm [] ty = []"
  shows "getCombinedContent etm st = ''## Contact Information\<newline>\<newline>**Ana**''"
proof -
  have p: "\<And>f l r. \<not> truthy f \<Longrightarrow> part f l r = []"
    by (case_tac f) auto
  have "getContactMarkdown st = ''## Contact Information\<newline>\<newline>**Ana**''"
    using assms(1-5) by (simp add: getContactMarkdown_def p)
  then show ?thesis
    using assms(6-11) by (simp add: getCombinedContent_def)
qed

theorem getCombinedContent_only_name_witness:
  "name (contactInfo (formValues anaOnly)) = Some ''Ana''
   \<and> email (contactInfo (formValues anaOnly)) = None
   \<and> summary (formValues anaOnly) = [] \<and> skills (formValues anaOnly) = []
   \<and> experience (formValues anaOnly) = [] \<and> education (formValues anaOnly) = []
   \<and> projects (formValues anaOnly) = []
   \<and> entriesToMarkdown [] ''Education'' = []
   \<and> getCombinedContent entriesToMarkdown anaOnly = ''## Contact Information\<newline>\<newline>**Ana**''"
  using getCombinedContent_only_name [of anaOnly entriesToMarkdown]
  by (simp add: anaOnly_def initialState_def defaultValues_def entriesToMarkdown_def)

text \<open>
  C9: in the whole-resume enhancement and in the import of a file, a field that is
  present in the response but empty counts as absent: taking the empty fields out of the
  content changes neither the resulting state nor the events, and a field that came
  empty keeps the value the form had.
\<close>

theorem empty_field_like_absent:
  "handleEnhanceResume etm st (Json (Some c)) = handleEnhanceResume etm st (Json (Some (dropEmpty c)))
   \<and> handleFileUpload etm st upload (Json (Some c)) = handleFileUpload etm st upload (Json (Some (dropEmpty c)))
   \<and> (r_summary c = Some [] \<longrightarrow>
        summary (formValues (fst (handleEnhanceResume etm st (Json (Some c))))) = summary (formValues st)
        \<and> summary (formValues (fst (handleFileUpload etm st upload (Json (Some c))))) = summary (formValues st))
   \<and> (r_skills c = Some [] \<longrightarrow>
        skills (formValues (fst (handleEnhanceResume etm st (Json (Some c))))) = skills (formValues st)
        \<and> skills (formValues (fst (handleFileUpload etm st upload (Json (Some c))))) = skills (formValues st))
   \<and> (r_experience c = Some [] \<longrightarrow>
        experience (formValues (fst (handleEnhanceResume etm st (Json (Some c))))) = experience (formValues st)
        \<and> experience (formValues (fst (handleFileUpload etm st upload (Json (Some c))))) = experience (formValues st))
   \<and> (r_education c = Some [] \<longrightarrow>
        education (formValues (fst (handleEnhanceResume etm st (Json (Some c))))) = education (formValues st)
        \<and> education (formValues (fst (handleFileUpload etm st upload (Json (Some c))))) = education (formValues st))
   \<and> (r_projects c = Some [] \<longrightarrow>
        projects (formValues (fst (handleEnhanceResume etm st (Json (Some c))))) = projects (formValues st)
        \<and> projects (formValues (fst (handleFileUpload etm st upload (Json (Some c))))) = projects (formValues st))"
proof -
  have e: "handleEnhanceResume etm st (Json (Some c)) = handleEnhanceResume etm st (Json (Some (dropEmpty c)))"
    by (simp add: handleEnhanceResume_def Let_def applyContent_dropEmpty)
  have u: "handleFileUpload etm st upload (Json (Some c)) = handleFileUpload etm st upload (Json (Some (dropEmpty c)))"
    by (cases upload) (simp_all add: handleFileUpload_def Let_def applyContent_dropEmpty)
  have ef: "formValues (fst (handleEnhanceResume etm st (Json (Some c)))) = formValues st
            \<or> formValues (fst (handleEnhanceResume etm st (Json (Some c)))) = applyContent c (formValues st)"
    by (simp add: handleEnhanceResume_def Let_def)
  have uf: "formValues (fst (handleFileUpload etm st upload (Json (Some c)))) = formValues st
            \<or> formValues (fst (handleFileUpload etm st upload (Json (Some c)))) = applyContent c (formValues st)"
    by (cases upload) (simp_all add: handleFileUpload_def Let_def)
  show ?thesis
    using e u ef uf by (auto simp: applyContent_fields)
qed

theorem empty_field_like_absent_witness:
  "r_summary hollowContent = Some [] \<and> r_experience hollowContent = Some []
   \<and> dropEmpty hollowContent = hollowContent\<lparr>r_summary := None, r_experience := None\<rparr>
   \<and> handleEnhanceResume entriesToMarkdown draft (Json (Some hollowContent))
       = handleEnhanceResume entriesToMarkdown draft
           (Json (Some (hollowContent\<lparr>r_summary := None, r_experience := None\<rparr>)))
   \<and> handleFileUpload entriesToMarkdown draft (Some ''%PDF'') (Json (Some hollowContent))
       = handleFileUpload entriesToMarkdown draft (Some ''%PDF'')
           (Json (Some (hollowContent\<lparr>r_summary := None, r_experience := None\<rparr>)))
   \<and> summary (formValues (fst (handleEnhanceResume entriesToMarkdown draft (Json (Some hollowContent)))))
       = ''S''
   \<and> summary (formValues (fst (handleFileUpload entriesToMarkdown draft (Some ''%PDF'')
                                 (Json (Some hollowContent))))) = ''S''
   \<and> experience (formValues (fst (handleEnhanceResume entriesToMarkdown draft (Json (Some hollowContent)))))
       = []"
proof -
  have h: "r_summary hollowContent = Some []" "r_experience hollowContent = Some []"
    by (simp_all add: hollowContent_def)
  have d: "dropEmpty hollowContent = hollowContent\<lparr>r_summary := None, r_experience := None\<rparr>"
    by (simp add: hollowContent_def dropEmpty_def)
  have s: "summary (formValues draft) = ''S''" "experience (formValues draft) = []"
    by (simp_all add: draft_def defaultValues_def)
  show ?thesis
    using empty_field_like_absent [of entriesToMarkdown draft hollowContent "Some ''%PDF''"] h d s
    by metis
qed

text \<open>
  C10: on the form tab the effect that follows a render sets the displayed text to the
  projection only when the projection is not the empty string; when it is empty, the
  displayed text falls back to \<open>initialContent\<close>, the text the session was seeded with.
\<close>

theorem previewEffect_fallback:
  assumes "activeTab st = Edit"
  shows "(getCombinedContent etm st = [] \<longrightarrow> previewContent (previewEffect etm st) = initialContent st)
       \<and> (getCombinedContent etm st \<noteq> [] \<longrightarrow>
            previewContent (previewEffect etm st) = Some (getCombinedContent etm st))"
  using assms by (simp add: previewEffect_def Let_def)

theorem previewEffect_fallback_witness:
  "activeTab seeded = Edit \<and> initialContent seeded = Some ''old''
   \<and> getCombinedContent entriesToMarkdown seeded = []
   \<and> previewContent (previewEffect entriesToMarkdown seeded) = Some ''old''
   \<and> activeTab draft = Edit
   \<and> getCombinedContent entriesToMarkdown draft \<noteq> []
   \<and> previewContent (previewEffect entriesToMarkdown draft)
       = Some (getCombinedContent entriesToMarkdown draft)"
  using previewEffect_fallback [of seeded entriesToMarkdown]
    previewEffect_fallback [of draft entriesToMarkdown]
  by (simp add: seeded_eq draft_def initialState_def getCombinedContent_def getContactMarkdown_def
        defaultValues_def entriesToMarkdown_def)

end
